theory Spec2Isabelle
  imports Main "HOL-Library.Word"
begin

unbundle bit_operations_syntax

section \<open>Python values and exceptions\<close>

text \<open>
  An integer object is a plain \<^verbatim>\<open>int\<close> or an instance of \<^verbatim>\<open>NoDataOffset\<close>, the
  subclass of \<^verbatim>\<open>int\<close> declared in \<^verbatim>\<open>util.py\<close>; \<^verbatim>\<open>isinstance(x, int)\<close> holds for
  both, and arithmetic on either gives a plain \<^verbatim>\<open>int\<close>.
\<close>

datatype pyint = Plain int | NoDataOffset int

fun int_of :: "pyint \<Rightarrow> int" where
  "int_of (Plain n) = n"
| "int_of (NoDataOffset n) = n"

text \<open>
  The values the functions of \<^verbatim>\<open>util.py\<close> are called with. Strings are Python 2 byte
  strings (\<^verbatim>\<open>event.py\<close> uses the \<^verbatim>\<open>print\<close> statement), a \<^verbatim>\<open>bytearray\<close> holds
  bytes.
\<close>

type_synonym byte = "8 word"

datatype pyval =
    PInt pyint
  | PStr string
  | PTuple "pyval list"
  | PBytearray "byte list"
  | PNone

text \<open>
  An exception is its class with the format string of its message and the value
  substituted into it (\<^verbatim>\<open>"..." % v\<close>), when there is one.
\<close>

datatype error =
    TypeError string
  | ValueError string "pyval option"
  | AttributeError string
  | KeyError pyval

text \<open>
  \<^verbatim>\<open>ValueError(fmt % v)\<close> for a format string with one conversion: a tuple on the
  right of \<^verbatim>\<open>%\<close> is the argument list, so only a one-element tuple formats.
\<close>

fun format_error :: "string \<Rightarrow> pyval \<Rightarrow> error" where
  "format_error fmt (PTuple []) = TypeError ''not enough arguments for format string''"
| "format_error fmt (PTuple [x]) = ValueError fmt (Some x)"
| "format_error fmt (PTuple (x # y # zs)) =
     TypeError ''not all arguments converted during string formatting''"
| "format_error fmt v = ValueError fmt (Some v)"

text \<open>A piece of a message between single quotes, as in \<^verbatim>\<open>"invalid port name '%s'"\<close>.\<close>

definition quoted :: "string \<Rightarrow> string" where
  "quoted s = CHR 0x27 # s @ [CHR 0x27]"

section \<open>Strings and numbers\<close>

definition isspace :: "char \<Rightarrow> bool" where
  "isspace c = (c \<in> set [CHR '' '', CHR 0x09, CHR 0x0A, CHR 0x0B, CHR 0x0C, CHR 0x0D])"

definition isdigit :: "char \<Rightarrow> bool" where
  "isdigit c = (c \<in> set ''0123456789'')"

definition strip :: "string \<Rightarrow> string" where
  "strip s = rev (dropWhile isspace (rev (dropWhile isspace s)))"

definition lower_char :: "char \<Rightarrow> char" where
  "lower_char c =
     (let k = (of_char c :: nat) in if 65 \<le> k \<and> k \<le> 90 then char_of (k + 32) else c)"

definition lower :: "string \<Rightarrow> string" where
  "lower s = map lower_char s"

text \<open>The value of a digit or letter in a numeral: \<^verbatim>\<open>0\<close>..\<^verbatim>\<open>9\<close>, \<^verbatim>\<open>a\<close>..\<^verbatim>\<open>z\<close>, \<^verbatim>\<open>A\<close>..\<^verbatim>\<open>Z\<close>.\<close>

definition digit_val :: "char \<Rightarrow> nat option" where
  "digit_val c =
     (let k = (of_char c :: nat) in
      if 48 \<le> k \<and> k \<le> 57 then Some (k - 48)
      else if 97 \<le> k \<and> k \<le> 122 then Some (k - 87)
      else if 65 \<le> k \<and> k \<le> 90 then Some (k - 55)
      else None)"

fun digits_value :: "nat \<Rightarrow> nat \<Rightarrow> string \<Rightarrow> nat option" where
  "digits_value b acc [] = Some acc"
| "digits_value b acc (c # cs) =
     (case digit_val c of
        None \<Rightarrow> None
      | Some d \<Rightarrow> if d < b then digits_value b (acc * b + d) cs else None)"

text \<open>
  The builtin \<^verbatim>\<open>int(s, b)\<close> on a string, for the bases 10 and 16 used here:
  surrounding whitespace is dropped, then come an optional sign, for base 16 an optional
  \<^verbatim>\<open>0x\<close> or \<^verbatim>\<open>0X\<close>, and one or more digits of the base. \<open>None\<close> is the
  \<^verbatim>\<open>ValueError\<close> of an invalid literal.
\<close>

definition py_int :: "nat \<Rightarrow> string \<Rightarrow> int option" where
  "py_int b s =
     (let t = strip s;
          neg = (take 1 t = ''-'');
          u = (if take 1 t = ''-'' \<or> take 1 t = ''+'' then drop 1 t else t);
          v = (if b = 16 \<and> (take 2 u = ''0x'' \<or> take 2 u = ''0X'') then drop 2 u else u)
      in if v = [] then None
         else map_option (\<lambda>n. if neg then - int n else int n) (digits_value b 0 v))"

definition digit_char :: "nat \<Rightarrow> char" where
  "digit_char d = char_of (48 + d)"

fun str_nat :: "nat \<Rightarrow> string" where
  "str_nat n = (if n < 10 then [digit_char n] else str_nat (n div 10) @ [digit_char (n mod 10)])"

declare str_nat.simps [simp del]

text \<open>The builtin \<^verbatim>\<open>str\<close> on an integer.\<close>

definition str_int :: "int \<Rightarrow> string" where
  "str_int k = (if k < 0 then CHR ''-'' # str_nat (nat (- k)) else str_nat (nat k))"

text \<open>\<^verbatim>\<open>s.split(d)\<close> for a separator of one character.\<close>

fun split_acc :: "char \<Rightarrow> string \<Rightarrow> string \<Rightarrow> string list" where
  "split_acc d acc [] = [rev acc]"
| "split_acc d acc (c # cs) =
     (if c = d then rev acc # split_acc d [] cs else split_acc d (c # acc) cs)"

definition split :: "char \<Rightarrow> string \<Rightarrow> string list" where
  "split d s = split_acc d [] s"

text \<open>\<^verbatim>\<open>s.split(d, 1)\<close>: at most one cut, at the first separator.\<close>

definition split1 :: "char \<Rightarrow> string \<Rightarrow> string list" where
  "split1 d s =
     (case dropWhile (\<lambda>c. c \<noteq> d) s of
        [] \<Rightarrow> [s]
      | _ # rest \<Rightarrow> [takeWhile (\<lambda>c. c \<noteq> d) s, rest])"

text \<open>\<^verbatim>\<open>xs.index(x)\<close>: the position of the first occurrence.\<close>

fun list_index :: "'a list \<Rightarrow> 'a \<Rightarrow> nat option" where
  "list_index [] x = None"
| "list_index (y # ys) x = (if y = x then Some 0 else map_option Suc (list_index ys x))"

section \<open>Configuration\<close>

text \<open>
  Modelled from the spec: the module \<^verbatim>\<open>mididings.setup\<close> is not part of the sources
  at hand. It holds the process-wide options \<^verbatim>\<open>data_offset\<close> and
  \<^verbatim>\<open>octave_offset\<close> read with \<^verbatim>\<open>get_config\<close>, and the two ordered lists of
  declared port names.
\<close>

record config =
  data_offset :: int
  octave_offset :: int
  in_portnames :: "string list"
  out_portnames :: "string list"

section \<open>Offset translation\<close>

text \<open>
  \<^verbatim>\<open>offset\<close> and \<^verbatim>\<open>actual\<close> on integer objects, which is what their callers
  pass. \<^verbatim>\<open>offset\<close> adds the data offset to its argument whatever its class;
  \<^verbatim>\<open>actual\<close> tests for \<^verbatim>\<open>NoDataOffset\<close> first. Both return a plain integer.
\<close>

definition offset :: "config \<Rightarrow> pyint \<Rightarrow> int" where
  "offset cfg n = int_of n + data_offset cfg"

definition actual :: "config \<Rightarrow> pyint \<Rightarrow> int" where
  "actual cfg n =
     (case n of
        NoDataOffset v \<Rightarrow> v
      | Plain v \<Rightarrow> v - data_offset cfg)"

section \<open>Notes\<close>

definition NOTE_NUMBERS :: "string \<rightharpoonup> int" where
  "NOTE_NUMBERS = map_of
     [(''c'', 0),
      (''c#'', 1), (''db'', 1),
      (''d'', 2),
      (''d#'', 3), (''eb'', 3),
      (''e'', 4),
      (''f'', 5),
      (''f#'', 6), (''gb'', 6),
      (''g'', 7),
      (''g#'', 8), (''ab'', 8),
      (''a'', 9),
      (''a#'', 10), (''bb'', 10),
      (''b'', 11)]"

definition NOTE_NAMES :: "int \<rightharpoonup> string" where
  "NOTE_NAMES = map_of
     [(0, ''c''), (1, ''c#''), (2, ''d''), (3, ''d#''), (4, ''e''), (5, ''f''),
      (6, ''f#''), (7, ''g''), (8, ''g#''), (9, ''a''), (10, ''a#''), (11, ''b'')]"

text \<open>
  The loop \<^verbatim>\<open>for i in range(len(note))\<close> of \<^verbatim>\<open>note_number\<close>: \<open>scan_break\<close> is the
  index at which it breaks. When it does not break, \<^verbatim>\<open>i\<close> stays at the last index, and is
  unbound for the empty string.
\<close>

fun scan_break :: "string \<Rightarrow> nat \<Rightarrow> nat option" where
  "scan_break [] i = None"
| "scan_break (c # cs) i =
     (if isdigit c \<or> c = CHR ''-'' then Some i else scan_break cs (Suc i))"

definition loop_index :: "string \<Rightarrow> nat option" where
  "loop_index note =
     (case scan_break note 0 of
        Some i \<Rightarrow> Some i
      | None \<Rightarrow> if note = [] then None else Some (length note - 1))"

text \<open>The body of the \<^verbatim>\<open>try\<close>; \<open>None\<close> is any exception raised in it.\<close>

definition parse_note :: "config \<Rightarrow> string \<Rightarrow> int option" where
  "parse_note cfg note =
     (case loop_index note of
        None \<Rightarrow> None
      | Some i \<Rightarrow>
          (case py_int 10 (drop i note) of
             None \<Rightarrow> None
           | Some octave \<Rightarrow>
               (case NOTE_NUMBERS (take i note) of
                  None \<Rightarrow> None
                | Some k \<Rightarrow> Some (k + (octave + octave_offset cfg) * 12))))"

definition check_note :: "bool \<Rightarrow> pyint \<Rightarrow> error + pyint" where
  "check_note allow_end r =
     (let end = (if \<not> allow_end then 128 else 129) in
      if \<not> (0 \<le> int_of r \<and> int_of r < end)
      then Inl (ValueError ''note number %d is out of range'' (Some (PInt r)))
      else Inr r)"

definition note_number :: "config \<Rightarrow> pyval \<Rightarrow> bool \<Rightarrow> error + pyint" where
  "note_number cfg note allow_end =
     (case note of
        PInt n \<Rightarrow> check_note allow_end n
      | PStr s \<Rightarrow>
          (let l = lower s in
           case parse_note cfg l of
             None \<Rightarrow> Inl (ValueError (''invalid note name '' @ quoted ''%s'') (Some (PStr l)))
           | Some r \<Rightarrow> check_note allow_end (Plain r))
      | _ \<Rightarrow> Inl (TypeError ''note must be an integer or string''))"

definition note_limit :: "config \<Rightarrow> pyval \<Rightarrow> error + pyint" where
  "note_limit cfg note = note_number cfg note True"

text \<open>
  The handler \<^verbatim>\<open>except (ValueError, IndexError)\<close> of \<^verbatim>\<open>note_range\<close>: a
  \<^verbatim>\<open>TypeError\<close> passes through.
\<close>

definition invalid_note_range :: "pyval \<Rightarrow> error" where
  "invalid_note_range notes = format_error ''invalid note range %r'' notes"

fun note_range_handler :: "pyval \<Rightarrow> error \<Rightarrow> error" where
  "note_range_handler notes (ValueError m v) = invalid_note_range notes"
| "note_range_handler notes e = e"

definition note_range :: "config \<Rightarrow> pyval \<Rightarrow> error + pyint \<times> pyint" where
  "note_range cfg notes =
     (case note_number cfg notes False of
        Inr n \<Rightarrow> Inr (n, Plain (int_of n + 1))
      | Inl _ \<Rightarrow>
          (case notes of
             PTuple xs \<Rightarrow>
               (case xs of
                  [] \<Rightarrow> Inl (invalid_note_range notes)
                | a # rest \<Rightarrow>
                    (case note_limit cfg a of
                       Inl e \<Rightarrow> Inl (note_range_handler notes e)
                     | Inr lo \<Rightarrow>
                         (case rest of
                            [] \<Rightarrow> Inl (invalid_note_range notes)
                          | b # _ \<Rightarrow>
                              (case note_limit cfg b of
                                 Inl e \<Rightarrow> Inl (note_range_handler notes e)
                               | Inr hi \<Rightarrow> Inr (lo, hi)))))
           | PStr s \<Rightarrow>
               (case split1 CHR '':'' s of
                  [] \<Rightarrow> Inl (invalid_note_range notes)
                | n0 # rest \<Rightarrow>
                    (case (if n0 \<noteq> [] then note_limit cfg (PStr n0) else Inr (Plain 0)) of
                       Inl e \<Rightarrow> Inl (note_range_handler notes e)
                     | Inr lo \<Rightarrow>
                         (case rest of
                            [] \<Rightarrow> Inl (invalid_note_range notes)
                          | n1 # _ \<Rightarrow>
                              (case (if n1 \<noteq> [] then note_limit cfg (PStr n1)
                                     else Inr (Plain 0)) of
                                 Inl e \<Rightarrow> Inl (note_range_handler notes e)
                               | Inr hi \<Rightarrow> Inr (lo, hi)))))
           | _ \<Rightarrow> Inl (TypeError ''note range must be a tuple of integers or a string'')))"

definition note_name :: "config \<Rightarrow> pyval \<Rightarrow> error + string" where
  "note_name cfg note =
     (case note of
        PInt n \<Rightarrow>
          (case NOTE_NAMES (int_of n mod 12) of
             Some name \<Rightarrow> Inr (name @ str_int (int_of n div 12 - octave_offset cfg))
           | None \<Rightarrow> Inl (KeyError (PInt (Plain (int_of n mod 12)))))
      | _ \<Rightarrow> Inl (TypeError ''note must be an integer''))"

section \<open>Controllers and velocities\<close>

definition ctrl_value :: "pyval \<Rightarrow> bool \<Rightarrow> error + pyint" where
  "ctrl_value v allow_end =
     (case v of
        PInt n \<Rightarrow>
          (let end = (if \<not> allow_end then 128 else 129) in
           if \<not> (0 \<le> int_of n \<and> int_of n < end)
           then Inl (ValueError ''controller value %d is out of range'' (Some v))
           else Inr n)
      | _ \<Rightarrow> Inl (TypeError ''controller value must be an integer''))"

definition ctrl_limit :: "pyval \<Rightarrow> error + pyint" where
  "ctrl_limit v = ctrl_value v True"

definition ctrl_range :: "pyval \<Rightarrow> error + pyint \<times> pyint" where
  "ctrl_range v =
     (case ctrl_value v False of
        Inr n \<Rightarrow> Inr (n, Plain (int_of n + 1))
      | Inl _ \<Rightarrow>
          (case v of
             PTuple [a, b] \<Rightarrow>
               (case ctrl_limit a of
                  Inl e \<Rightarrow> Inl e
                | Inr lo \<Rightarrow>
                    (case ctrl_limit b of
                       Inl e \<Rightarrow> Inl e
                     | Inr hi \<Rightarrow> Inr (lo, hi)))
           | _ \<Rightarrow> Inl (format_error ''invalid controller value range %r'' v)))"

definition velocity_value :: "pyval \<Rightarrow> bool \<Rightarrow> error + pyint" where
  "velocity_value velocity allow_end =
     (case velocity of
        PInt n \<Rightarrow>
          (let end = (if \<not> allow_end then 128 else 129) in
           if \<not> (0 \<le> int_of n \<and> int_of n < end)
           then Inl (ValueError ''velocity %d is out of range'' (Some velocity))
           else Inr n)
      | _ \<Rightarrow> Inl (TypeError ''velocity must be an integer''))"

definition velocity_limit :: "pyval \<Rightarrow> error + pyint" where
  "velocity_limit velocity = velocity_value velocity True"

definition velocity_range :: "pyval \<Rightarrow> error + pyint \<times> pyint" where
  "velocity_range velocity =
     (case velocity_value velocity False of
        Inr n \<Rightarrow> Inr (n, Plain (int_of n + 1))
      | Inl _ \<Rightarrow>
          (case velocity of
             PTuple [a, b] \<Rightarrow>
               (case velocity_limit a of
                  Inl e \<Rightarrow> Inl e
                | Inr lo \<Rightarrow>
                    (case velocity_limit b of
                       Inl e \<Rightarrow> Inl e
                     | Inr hi \<Rightarrow> Inr (lo, hi)))
           | _ \<Rightarrow> Inl (format_error ''invalid velocity range %r'' velocity)))"

section \<open>Ports\<close>

text \<open>
  \<^verbatim>\<open>offset(ports.index(port))\<close>; \<^verbatim>\<open>index\<close> raises a \<^verbatim>\<open>ValueError\<close> for a name
  that is not in the list.
\<close>

definition offset_index :: "config \<Rightarrow> string list \<Rightarrow> string \<Rightarrow> error + pyint" where
  "offset_index cfg ports port =
     (case list_index ports port of
        Some i \<Rightarrow> Inr (Plain (offset cfg (Plain (int i))))
      | None \<Rightarrow> Inl (ValueError ''%r is not in list'' (Some (PStr port))))"

definition port_number :: "config \<Rightarrow> pyval \<Rightarrow> error + pyint" where
  "port_number cfg port =
     (case port of
        PInt n \<Rightarrow>
          if actual cfg n < 0
          then Inl (ValueError ''invalid port number %d'' (Some port))
          else Inr n
      | PStr name \<Rightarrow>
          (let in_ports = in_portnames cfg; out_ports = out_portnames cfg in
           if name \<in> set in_ports \<and> name \<in> set out_ports \<and>
              list_index in_ports name \<noteq> list_index out_ports name
           then Inl (ValueError (''port name '' @ quoted ''%s'' @ '' is ambiguous'') (Some port))
           else if name \<in> set in_ports then offset_index cfg in_ports name
           else if name \<in> set out_ports then offset_index cfg out_ports name
           else Inl (ValueError (''invalid port name '' @ quoted ''%s'') (Some port)))
      | _ \<Rightarrow> Inl (TypeError ''port must be an integer or string''))"

section \<open>System exclusive data\<close>

text \<open>
  One item handed to the builtin \<^verbatim>\<open>bytearray\<close>: an integer in \<^verbatim>\<open>range(0, 256)\<close>, or
  a string of size one, which stands for its byte.
\<close>

definition byte_of_int :: "int \<Rightarrow> error + byte" where
  "byte_of_int v =
     (if v < 0 \<or> 256 \<le> v then Inl (ValueError ''byte must be in range(0, 256)'' None)
      else Inr (word_of_int v))"

definition ord :: "char \<Rightarrow> int" where
  "ord c = of_char c"

fun byte_of_item :: "pyval \<Rightarrow> error + byte" where
  "byte_of_item (PInt n) = byte_of_int (int_of n)"
| "byte_of_item (PStr s) =
     (case s of
        [c] \<Rightarrow> Inr (word_of_int (ord c))
      | _ \<Rightarrow> Inl (ValueError ''string must be of size 1'' None))"
| "byte_of_item v = Inl (TypeError ''an integer or string of size 1 is required'')"

text \<open>
  \<^verbatim>\<open>bytearray(int(x, 16) for x in xs)\<close>: the generator is consumed item by item, so
  the first item that is not a numeral or not a byte raises.
\<close>

fun bytearray_hex :: "string list \<Rightarrow> error + byte list" where
  "bytearray_hex [] = Inr []"
| "bytearray_hex (x # xs) =
     (case py_int 16 x of
        None \<Rightarrow> Inl (ValueError ''invalid literal for int() with base 16: %r'' (Some (PStr x)))
      | Some v \<Rightarrow>
          (case byte_of_int v of
             Inl e \<Rightarrow> Inl e
           | Inr b \<Rightarrow>
               (case bytearray_hex xs of
                  Inl e \<Rightarrow> Inl e
                | Inr bs \<Rightarrow> Inr (b # bs))))"

fun bytearray_items :: "pyval list \<Rightarrow> error + byte list" where
  "bytearray_items [] = Inr []"
| "bytearray_items (x # xs) =
     (case byte_of_item x of
        Inl e \<Rightarrow> Inl e
      | Inr b \<Rightarrow>
          (case bytearray_items xs of
             Inl e \<Rightarrow> Inl e
           | Inr bs \<Rightarrow> Inr (b # bs)))"

text \<open>\<^verbatim>\<open>sysex[i:i+2] for i in range(0, len(sysex), 2)\<close>.\<close>

fun pairs :: "string \<Rightarrow> string list" where
  "pairs [] = []"
| "pairs [c] = [[c]]"
| "pairs (c # d # cs) = [c, d] # pairs cs"

definition delimiters :: string where
  "delimiters = [CHR '','', CHR '' '', CHR 0x0C, CHR 0x0A, CHR 0x0D, CHR 0x09, CHR 0x0B]"

definition startswith :: "string \<Rightarrow> string \<Rightarrow> bool" where
  "startswith s p = (take (length p) s = p)"

definition sysex_to_bytearray :: "pyval \<Rightarrow> error + byte list" where
  "sysex_to_bytearray sysex =
     (case sysex of
        PStr s \<Rightarrow>
          if startswith s ''F0'' \<or> startswith s ''f0'' then
            if length s < 3 \<or> s ! 2 \<notin> set delimiters
            then bytearray_hex (pairs s)
            else bytearray_hex (split (s ! 2) s)
          else Inr (map (\<lambda>c. word_of_int (ord c)) s)
      | PBytearray b \<Rightarrow> Inr b
      | PInt n \<Rightarrow>
          if int_of n < 0 then Inl (ValueError ''negative count'' None)
          else Inr (replicate (nat (int_of n)) 0)
      | PTuple xs \<Rightarrow> bytearray_items xs
      | PNone \<Rightarrow> Inl (TypeError ''object is not iterable''))"

text \<open>The loop \<^verbatim>\<open>for c in sysex[1:-1]\<close> raises at the first byte above \<^verbatim>\<open>0x7f\<close>.\<close>

definition sysex_data :: "pyval \<Rightarrow> bool \<Rightarrow> error + byte list" where
  "sysex_data sysex allow_partial =
     (case sysex_to_bytearray sysex of
        Inl e \<Rightarrow> Inl e
      | Inr b \<Rightarrow>
          if length b < 2 then Inl (ValueError ''sysex too short'' None)
          else if b ! 0 \<noteq> 0xf0
          then Inl (ValueError (''sysex doesn'' @ CHR 0x27 # ''t start with F0'') None)
          else if last b \<noteq> 0xf7 \<and> \<not> allow_partial
          then Inl (ValueError (''sysex doesn'' @ CHR 0x27 # ''t end with F7'') None)
          else
            (case find (\<lambda>c. c > 0x7f) (butlast (tl b)) of
               Some c \<Rightarrow>
                 Inl (ValueError ''sysex data byte %#x is out of range''
                        (Some (PInt (Plain (uint c)))))
             | None \<Rightarrow> Inr b))"

section \<open>Event attributes\<close>

definition NOTEON :: int where "NOTEON = push_bit 0 1"
definition NOTEOFF :: int where "NOTEOFF = push_bit 1 1"
definition NOTE :: int where "NOTE = NOTEON OR NOTEOFF"
definition CONTROLLER :: int where "CONTROLLER = push_bit 2 1"
definition PITCHBEND :: int where "PITCHBEND = push_bit 3 1"
definition PGMCHANGE :: int where "PGMCHANGE = push_bit 4 1"

text \<open>
  Modelled from the spec: the class \<^verbatim>\<open>_mididings.MidiEvent\<close> that
  \<^verbatim>\<open>_MidiEventEx\<close> extends is not part of the sources at hand. An event record
  has a type tag, a port, a channel and the two payload slots \<^verbatim>\<open>data1\<close> and
  \<^verbatim>\<open>data2\<close>, all integers.
\<close>

record MidiEvent =
  type :: int
  port :: int
  channel :: int
  data1 :: int
  data2 :: int

definition getattr :: "MidiEvent \<Rightarrow> string \<Rightarrow> error + int" where
  "getattr self name =
     (if name = ''type'' then Inr (type self)
      else if name = ''port'' then Inr (port self)
      else if name = ''channel'' then Inr (channel self)
      else if name = ''data1'' then Inr (data1 self)
      else if name = ''data2'' then Inr (data2 self)
      else Inl (AttributeError name))"

definition setattr :: "MidiEvent \<Rightarrow> string \<Rightarrow> int \<Rightarrow> error + MidiEvent" where
  "setattr self name v =
     (if name = ''type'' then Inr (self\<lparr>type := v\<rparr>)
      else if name = ''port'' then Inr (self\<lparr>port := v\<rparr>)
      else if name = ''channel'' then Inr (self\<lparr>channel := v\<rparr>)
      else if name = ''data1'' then Inr (self\<lparr>data1 := v\<rparr>)
      else if name = ''data2'' then Inr (self\<lparr>data2 := v\<rparr>)
      else Inl (AttributeError name))"

text \<open>
  The accessors made by \<^verbatim>\<open>make_get_set\<close>. Each returns the lines it prints together
  with its result.
\<close>

definition getter :: "int \<Rightarrow> string \<Rightarrow> MidiEvent \<Rightarrow> string list \<times> (error + int)" where
  "getter typ data self =
     ((if type self AND typ = 0 then [''midi event attribute error''] else []),
      getattr self data)"

definition setter ::
  "int \<Rightarrow> string \<Rightarrow> MidiEvent \<Rightarrow> int \<Rightarrow> string list \<times> (error + MidiEvent)" where
  "setter typ data self v =
     ((if type self AND typ = 0 then [''midi event attribute error''] else []),
      setattr self data v)"

definition make_get_set :: "int \<Rightarrow> string \<Rightarrow>
    (MidiEvent \<Rightarrow> string list \<times> (error + int)) \<times>
    (MidiEvent \<Rightarrow> int \<Rightarrow> string list \<times> (error + MidiEvent))" where
  "make_get_set typ data = (getter typ data, setter typ data)"

definition note_property where
  "note_property = make_get_set NOTE ''data1''"

definition velocity where
  "velocity = make_get_set NOTE ''data2''"

definition param where
  "param = make_get_set CONTROLLER ''data1''"

definition value_property where
  "value_property = make_get_set (CONTROLLER OR PITCHBEND OR PGMCHANGE) ''data2''"

section \<open>Notions used to state the properties\<close>

text \<open>The number of elements before the first occurrence of \<open>x\<close>.\<close>

definition first_index :: "'a list \<Rightarrow> 'a \<Rightarrow> int" where
  "first_index xs x = int (length (takeWhile (\<lambda>y. y \<noteq> x) xs))"

text \<open>The lines an accessor prints for a record and a required type mask.\<close>

definition diagnostic :: "int \<Rightarrow> MidiEvent \<Rightarrow> string list" where
  "diagnostic typ self =
     (if type self AND typ = 0 then [''midi event attribute error''] else [])"

text \<open>The four logical attributes, each with its required type mask and its slot.\<close>

definition attribute_table ::
  "(((MidiEvent \<Rightarrow> string list \<times> (error + int)) \<times>
     (MidiEvent \<Rightarrow> int \<Rightarrow> string list \<times> (error + MidiEvent))) \<times>
    int \<times> (MidiEvent \<Rightarrow> int)) list" where
  "attribute_table =
     [(note_property, NOTE, data1),
      (velocity, NOTE, data2),
      (param, CONTROLLER, data1),
      (value_property, CONTROLLER OR PITCHBEND OR PGMCHANGE, data2)]"

text \<open>Configurations used in the examples.\<close>

definition config1 :: config where
  "config1 = \<lparr>data_offset = 1, octave_offset = 1,
              in_portnames = [''keys'', ''pads''],
              out_portnames = [''pads'', ''keys'', ''synth'']\<rparr>"

definition config0 :: config where
  "config0 = \<lparr>data_offset = 0, octave_offset = 0,
              in_portnames = [''keys''], out_portnames = [''keys'']\<rparr>"

definition controller_event :: MidiEvent where
  "controller_event = \<lparr>type = CONTROLLER, port = 0, channel = 0, data1 = 7, data2 = 64\<rparr>"

text \<open>
  A range description that is a single value: an integer, or a string without the
  separator of a range string.
\<close>

definition single_value :: "pyval \<Rightarrow> bool" where
  "single_value v = (case v of PInt n \<Rightarrow> True | PStr s \<Rightarrow> CHR '':'' \<notin> set s | _ \<Rightarrow> False)"

text \<open>\<^verbatim>\<open>d.join(ts)\<close>: the pieces with the separator between them.\<close>

fun join :: "char \<Rightarrow> string list \<Rightarrow> string" where
  "join d [] = []"
| "join d [t] = t"
| "join d (t # u # ts) = t @ d # join d (u # ts)"

text \<open>
  The conversion of a string to bytes as the specification words it: the third
  character alone decides between hexadecimal pairs and separated tokens, and any other
  string gives its character codes.
\<close>

definition spec_to_byte_sequence :: "string \<Rightarrow> error + byte list" where
  "spec_to_byte_sequence s =
     (if 3 \<le> length s \<and> s ! 2 \<notin> set delimiters then bytearray_hex (pairs s)
      else if 3 \<le> length s \<and> s ! 2 \<in> set delimiters then bytearray_hex (split (s ! 2) s)
      else Inr (map (\<lambda>c. word_of_int (ord c)) s))"

section \<open>Event attributes: properties\<close>

lemma getter_data1: "getter typ ''data1'' self = (diagnostic typ self, Inr (data1 self))"
  by (simp add: getter_def getattr_def diagnostic_def)

lemma getter_data2: "getter typ ''data2'' self = (diagnostic typ self, Inr (data2 self))"
  by (simp add: getter_def getattr_def diagnostic_def)

lemma setter_data1:
  "setter typ ''data1'' self v = (diagnostic typ self, Inr (self\<lparr>data1 := v\<rparr>))"
  by (simp add: setter_def setattr_def diagnostic_def)

lemma setter_data2:
  "setter typ ''data2'' self v = (diagnostic typ self, Inr (self\<lparr>data2 := v\<rparr>))"
  by (simp add: setter_def setattr_def diagnostic_def)

lemma diagnostic_update [simp]:
  "diagnostic typ (self\<lparr>data1 := v\<rparr>) = diagnostic typ self"
  "diagnostic typ (self\<lparr>data2 := v\<rparr>) = diagnostic typ self"
  by (simp_all add: diagnostic_def)

lemma diagnostic_controller_event:
  "diagnostic CONTROLLER controller_event = []"
  "diagnostic NOTE controller_event = [''midi event attribute error'']"
  by (simp_all add: diagnostic_def controller_event_def CONTROLLER_def NOTE_def NOTEON_def
        NOTEOFF_def)

text \<open>
  C1 (as amended). For every event record and each of the attributes note, velocity,
  param and value: get returns the selected slot and set writes it, whatever the type
  tag, so that a get after a set returns the value that was set. No error is raised.
  When the type tag does not intersect the required mask, get and set each print the
  line \<^verbatim>\<open>midi event attribute error\<close>; when it does, nothing is printed.
\<close>

theorem attribute_set_get:
  assumes "(acc, typ, slot) \<in> set attribute_table"
  shows "fst acc self = (diagnostic typ self, Inr (slot self)) \<and>
         (\<exists>self'. snd acc self v = (diagnostic typ self, Inr self') \<and>
            type self' = type self \<and>
            fst acc self' = (diagnostic typ self, Inr v))"
  using assms
  by (auto simp add: attribute_table_def note_property_def velocity_def param_def
        value_property_def make_get_set_def getter_data1 getter_data2 setter_data1
        setter_data2)

theorem attribute_set_get_witness:
  "(param, CONTROLLER, data1) \<in> set attribute_table \<and>
   fst param controller_event = ([], Inr 7) \<and>
   (\<exists>self'. snd param controller_event 100 = ([], Inr self') \<and>
      fst param self' = ([], Inr 100)) \<and>
   (note_property, NOTE, data1) \<in> set attribute_table \<and>
   fst note_property controller_event = ([''midi event attribute error''], Inr 7) \<and>
   (\<exists>self'. snd note_property controller_event 100 =
        ([''midi event attribute error''], Inr self') \<and>
      fst note_property self' = ([''midi event attribute error''], Inr 100))"
proof -
  have p: "(param, CONTROLLER, data1) \<in> set attribute_table"
    by (simp add: attribute_table_def)
  have n: "(note_property, NOTE, data1) \<in> set attribute_table"
    by (simp add: attribute_table_def)
  have d: "data1 controller_event = 7"
    by (simp add: controller_event_def)
  show ?thesis
    using attribute_set_get [OF p, of controller_event 100]
      attribute_set_get [OF n, of controller_event 100] p n d
    by (auto simp add: diagnostic_controller_event)
qed

text \<open>
  C1 as stated fails: on a controller event, whose type tag does not intersect the mask
  of note, get of note raises nothing; it prints the diagnostic line and returns the
  slot \<^verbatim>\<open>data1\<close>.
\<close>

theorem attribute_get_counterexample:
  "\<not> isl (snd (fst note_property controller_event)) \<and>
   fst note_property controller_event = ([''midi event attribute error''], Inr 7)"
  by (simp add: note_property_def make_get_set_def getter_def getattr_def NOTE_def NOTEON_def
        NOTEOFF_def CONTROLLER_def controller_event_def)

section \<open>Ports: properties\<close>

lemma list_index_first_index:
  "x \<in> set xs \<Longrightarrow> list_index xs x = Some (length (takeWhile (\<lambda>y. y \<noteq> x) xs))"
  by (induction xs) auto

lemma offset_index_member:
  "x \<in> set xs \<Longrightarrow> offset_index cfg xs x = Inr (Plain (first_index xs x + data_offset cfg))"
  by (simp add: offset_index_def list_index_first_index first_index_def offset_def)

text \<open>
  C2 (as amended). For every string port name and every pair of configured port-name
  lists: a name that occurs in exactly one list resolves to its first index in that list
  with the data offset added; a name that occurs in both lists at different first
  indices raises the error of an ambiguous port name; a name that occurs in both lists
  at the same first index resolves to that index with the data offset added; a name in
  neither list raises the error of an invalid port name.
\<close>

theorem port_number_name:
  "(name \<in> set (in_portnames cfg) \<and> name \<notin> set (out_portnames cfg) \<longrightarrow>
      port_number cfg (PStr name) =
        Inr (Plain (first_index (in_portnames cfg) name + data_offset cfg))) \<and>
   (name \<notin> set (in_portnames cfg) \<and> name \<in> set (out_portnames cfg) \<longrightarrow>
      port_number cfg (PStr name) =
        Inr (Plain (first_index (out_portnames cfg) name + data_offset cfg))) \<and>
   (name \<in> set (in_portnames cfg) \<and> name \<in> set (out_portnames cfg) \<and>
    first_index (in_portnames cfg) name \<noteq> first_index (out_portnames cfg) name \<longrightarrow>
      port_number cfg (PStr name) =
        Inl (ValueError (''port name '' @ quoted ''%s'' @ '' is ambiguous'')
               (Some (PStr name)))) \<and>
   (name \<in> set (in_portnames cfg) \<and> name \<in> set (out_portnames cfg) \<and>
    first_index (in_portnames cfg) name = first_index (out_portnames cfg) name \<longrightarrow>
      port_number cfg (PStr name) =
        Inr (Plain (first_index (in_portnames cfg) name + data_offset cfg))) \<and>
   (name \<notin> set (in_portnames cfg) \<and> name \<notin> set (out_portnames cfg) \<longrightarrow>
      port_number cfg (PStr name) =
        Inl (ValueError (''invalid port name '' @ quoted ''%s'') (Some (PStr name))))"
  by (auto simp add: port_number_def Let_def offset_index_member list_index_first_index
        first_index_def)

theorem port_number_name_witness:
  "''synth'' \<notin> set (in_portnames config1) \<and> ''synth'' \<in> set (out_portnames config1) \<and>
   port_number config1 (PStr ''synth'') = Inr (Plain 3) \<and>
   ''keys'' \<in> set (in_portnames config1) \<and> ''keys'' \<in> set (out_portnames config1) \<and>
   first_index (in_portnames config1) ''keys'' \<noteq> first_index (out_portnames config1) ''keys'' \<and>
   port_number config1 (PStr ''keys'') =
     Inl (ValueError (''port name '' @ quoted ''%s'' @ '' is ambiguous'')
            (Some (PStr ''keys''))) \<and>
   ''organ'' \<notin> set (in_portnames config1) \<and> ''organ'' \<notin> set (out_portnames config1) \<and>
   port_number config1 (PStr ''organ'') =
     Inl (ValueError (''invalid port name '' @ quoted ''%s'') (Some (PStr ''organ''))) \<and>
   ''keys'' \<in> set (in_portnames config0) \<and> ''keys'' \<in> set (out_portnames config0) \<and>
   first_index (in_portnames config0) ''keys'' = first_index (out_portnames config0) ''keys'' \<and>
   port_number config0 (PStr ''keys'') = Inr (Plain 0)"
  using port_number_name [of "''synth''" config1] port_number_name [of "''keys''" config1]
    port_number_name [of "''organ''" config1] port_number_name [of "''keys''" config0]
  by (simp add: config1_def config0_def first_index_def)

text \<open>
  C2 as stated fails: a name at the same index of both lists raises no error; it
  resolves to that index.
\<close>

theorem port_number_name_counterexample:
  "first_index (in_portnames config0) ''keys'' = first_index (out_portnames config0) ''keys'' \<and>
   \<not> isl (port_number config0 (PStr ''keys'')) \<and>
   port_number config0 (PStr ''keys'') = Inr (Plain 0)"
  by (simp add: config0_def first_index_def port_number_def offset_index_def offset_def)

text \<open>
  C10 (as amended). For every plain integer \<open>n\<close> and every configured data offset,
  \<^verbatim>\<open>port_number\<close> returns \<open>n\<close> unchanged exactly when \<open>n\<close> minus the data offset
  is at least 0, and otherwise raises a value error that names the port number. For an
  integer tagged \<^verbatim>\<open>NoDataOffset\<close> the data offset is not subtracted: it is returned
  unchanged exactly when it is at least 0 itself. Integer port numbers have no upper
  bound and are not looked up in the lists of port names.
\<close>

theorem port_number_integer:
  "port_number cfg (PInt (Plain n)) =
     (if 0 \<le> n - data_offset cfg then Inr (Plain n)
      else Inl (ValueError ''invalid port number %d'' (Some (PInt (Plain n))))) \<and>
   port_number cfg (PInt (NoDataOffset n)) =
     (if 0 \<le> n then Inr (NoDataOffset n)
      else Inl (ValueError ''invalid port number %d'' (Some (PInt (NoDataOffset n))))) \<and>
   port_number (cfg\<lparr>in_portnames := ins, out_portnames := outs\<rparr>) (PInt p) =
     port_number cfg (PInt p)"
  by (auto simp add: port_number_def actual_def split: pyint.splits)

text \<open>
  C10 as stated fails for an integer tagged \<^verbatim>\<open>NoDataOffset\<close>: with data offset 1,
  the tagged integer 0 is returned unchanged although 0 minus the offset is negative.
\<close>

theorem port_number_integer_counterexample:
  "port_number config1 (PInt (NoDataOffset 0)) = Inr (NoDataOffset 0) \<and>
   int_of (NoDataOffset 0) - data_offset config1 < 0"
  by (simp add: port_number_def actual_def config1_def)

section \<open>Offset translation: properties\<close>

text \<open>
  C4. An integer tagged \<^verbatim>\<open>NoDataOffset\<close> should pass through \<^verbatim>\<open>offset\<close> unchanged.
  The code adds the data offset to it as to any integer: with data offset 1, the tagged
  integer 5 gives 6.
\<close>

theorem offset_marker_adds_offset:
  "offset config1 (NoDataOffset 5) = 6 \<and> offset config1 (Plain 5) = 6"
  by (simp add: offset_def config1_def)

text \<open>
  C5 (as amended). For every plain integer \<open>n\<close> and every configured data offset,
  \<^verbatim>\<open>actual(offset(n))\<close> and \<^verbatim>\<open>offset(actual(n))\<close> are both \<open>n\<close>. For an integer
  \<open>n\<close> tagged \<^verbatim>\<open>NoDataOffset\<close>, \<^verbatim>\<open>actual\<close> returns the plain \<open>n\<close>, and
  \<^verbatim>\<open>offset(actual(n))\<close> is \<open>n\<close> plus the data offset.
\<close>

theorem offset_actual_roundtrip:
  "actual cfg (Plain (offset cfg (Plain n))) = n \<and>
   offset cfg (Plain (actual cfg (Plain n))) = n \<and>
   offset cfg (Plain (actual cfg (NoDataOffset n))) = n + data_offset cfg"
  by (simp add: offset_def actual_def)

text \<open>
  C5 as stated fails for an integer tagged \<^verbatim>\<open>NoDataOffset\<close>: with data offset 1,
  \<^verbatim>\<open>offset(actual(NoDataOffset(5)))\<close> is 6.
\<close>

theorem offset_actual_counterexample:
  "offset config1 (Plain (actual config1 (NoDataOffset 5))) \<noteq> int_of (NoDataOffset 5)"
  by (simp add: offset_def actual_def config1_def)

section \<open>Controller ranges: properties\<close>

text \<open>
  C3 (as amended). \<^verbatim>\<open>ctrl_range(7)\<close> returns the pair (7, 8), and
  \<^verbatim>\<open>ctrl_range((0, 127))\<close> returns the pair (0, 127): the two values of a tuple are
  taken as the bounds as they are.
\<close>

theorem ctrl_range_scenario:
  "ctrl_range (PInt (Plain 7)) = Inr (Plain 7, Plain 8) \<and>
   ctrl_range (PTuple [PInt (Plain 0), PInt (Plain 127)]) = Inr (Plain 0, Plain 127)"
  by (simp add: ctrl_range_def ctrl_value_def ctrl_limit_def)

text \<open>C3 as stated fails: \<^verbatim>\<open>ctrl_range((0, 127))\<close> is not the pair (0, 128).\<close>

theorem ctrl_range_scenario_counterexample:
  "ctrl_range (PTuple [PInt (Plain 0), PInt (Plain 127)]) \<noteq> Inr (Plain 0, Plain 128)"
  by (simp add: ctrl_range_def ctrl_value_def ctrl_limit_def)

section \<open>System exclusive data: properties\<close>

text \<open>
  C8. \<^verbatim>\<open>sysex_data\<close> is idempotent: when it accepts an input and returns the byte
  sequence \<open>b\<close>, it accepts \<open>b\<close> and returns it unchanged; and whatever byte sequence
  it accepts, it returns that same sequence.
\<close>

theorem sysex_data_idempotent:
  "(sysex_data s allow_partial = Inr b \<longrightarrow> sysex_data (PBytearray b) allow_partial = Inr b) \<and>
   (sysex_data (PBytearray b) allow_partial = Inr b' \<longrightarrow> b' = b)"
  by (auto simp add: sysex_data_def sysex_to_bytearray_def
        split: sum.splits if_splits option.splits)

lemma sysex_data_example:
  "sysex_data (PStr ''F0 00 20 29 01 F7'') False = Inr [0xF0, 0x00, 0x20, 0x29, 0x01, 0xF7]"
  by code_simp

theorem sysex_data_idempotent_witness:
  "sysex_data (PStr ''F0 00 20 29 01 F7'') False = Inr [0xF0, 0x00, 0x20, 0x29, 0x01, 0xF7] \<and>
   sysex_data (PBytearray [0xF0, 0x00, 0x20, 0x29, 0x01, 0xF7]) False =
     Inr [0xF0, 0x00, 0x20, 0x29, 0x01, 0xF7]"
  using sysex_data_idempotent
    [of "PStr ''F0 00 20 29 01 F7''" False "[0xF0, 0x00, 0x20, 0x29, 0x01, 0xF7]"]
  by (simp add: sysex_data_example)

subsection \<open>Strings as byte sequences\<close>

lemma split_acc_not_Nil: "split_acc d acc s \<noteq> []"
  by (induction s arbitrary: acc) auto

lemma join_Cons: "ts \<noteq> [] \<Longrightarrow> join d (t # ts) = t @ d # join d ts"
  by (cases ts) auto

lemma join_split_acc: "join d (split_acc d acc s) = rev acc @ s"
  by (induction s arbitrary: acc) (auto simp add: join_Cons split_acc_not_Nil)

lemma split_acc_no_separator:
  "d \<notin> set acc \<Longrightarrow> \<forall>t\<in>set (split_acc d acc s). d \<notin> set t"
proof (induction s arbitrary: acc)
  case Nil
  then show ?case by simp
next
  case (Cons c cs)
  show ?case
  proof (cases "c = d")
    case True
    with Cons.prems Cons.IH [of "[]"] show ?thesis by simp
  next
    case False
    with Cons.prems Cons.IH [of "c # acc"] show ?thesis by simp
  qed
qed

lemma join_split: "join d (split d s) = s"
  by (simp add: split_def join_split_acc)

lemma split_no_separator: "t \<in> set (split d s) \<Longrightarrow> d \<notin> set t"
  using split_acc_no_separator [of d "[]" s] by (simp add: split_def)

lemma concat_pairs: "concat (pairs s) = s"
  by (induction s rule: pairs.induct) auto

lemma pairs_length: "p \<in> set (pairs s) \<Longrightarrow> length p = 1 \<or> length p = 2"
  by (induction s rule: pairs.induct) auto

lemma pairs_butlast: "p \<in> set (butlast (pairs s)) \<Longrightarrow> length p = 2"
  by (induction s rule: pairs.induct) (auto split: if_splits)

lemma bytearray_hex_Inr:
  "bytearray_hex xs = Inr bs \<Longrightarrow>
   length bs = length xs \<and> (\<forall>i<length xs. py_int 16 (xs ! i) = Some (uint (bs ! i)))"
proof (induction xs arbitrary: bs)
  case Nil
  then show ?case by simp
next
  case (Cons x xs)
  then obtain v b bs' where v: "py_int 16 x = Some v" and b: "byte_of_int v = Inr b"
    and r: "bytearray_hex xs = Inr bs'" and bs: "bs = b # bs'"
    by (auto split: option.splits sum.splits)
  from b have "uint b = v"
    by (auto simp add: byte_of_int_def uint_word_of_int take_bit_eq_mod split: if_splits)
  with Cons.IH [OF r] v bs show ?case
    by (auto simp add: nth_Cons split: nat.splits)
qed

text \<open>
  C9 (as amended). For every string input to \<^verbatim>\<open>sysex_to_bytearray\<close>: if the string
  starts with \<^verbatim>\<open>F0\<close> or \<^verbatim>\<open>f0\<close> and has fewer than 3 characters or a 3rd character
  that is not a delimiter (comma, space or other whitespace), the whole string is cut
  into contiguous pieces of two characters (the last may have one) and each piece is
  parsed as one hexadecimal byte; if it starts with \<^verbatim>\<open>F0\<close> or \<^verbatim>\<open>f0\<close> and its 3rd
  character is a delimiter, the string is split on that character and each token is
  parsed as one hexadecimal byte; every string that does not start with \<^verbatim>\<open>F0\<close> or
  \<^verbatim>\<open>f0\<close> is converted to one byte per character, its character code.
\<close>

theorem sysex_to_bytearray_string:
  "((startswith s ''F0'' \<or> startswith s ''f0'') \<and> (length s < 3 \<or> s ! 2 \<notin> set delimiters) \<longrightarrow>
      (\<exists>ps. concat ps = s \<and> (\<forall>p\<in>set ps. length p = 1 \<or> length p = 2) \<and>
         (\<forall>p\<in>set (butlast ps). length p = 2) \<and>
         sysex_to_bytearray (PStr s) = bytearray_hex ps)) \<and>
   ((startswith s ''F0'' \<or> startswith s ''f0'') \<and> 3 \<le> length s \<and> s ! 2 \<in> set delimiters \<longrightarrow>
      (\<exists>ts. join (s ! 2) ts = s \<and> (\<forall>t\<in>set ts. s ! 2 \<notin> set t) \<and>
         sysex_to_bytearray (PStr s) = bytearray_hex ts)) \<and>
   (\<not> (startswith s ''F0'' \<or> startswith s ''f0'') \<longrightarrow>
      sysex_to_bytearray (PStr s) = Inr (map (\<lambda>c. word_of_int (ord c)) s))"
proof (intro conjI impI)
  assume "(startswith s ''F0'' \<or> startswith s ''f0'') \<and> (length s < 3 \<or> s ! 2 \<notin> set delimiters)"
  then have "sysex_to_bytearray (PStr s) = bytearray_hex (pairs s)"
    by (auto simp add: sysex_to_bytearray_def)
  then show "\<exists>ps. concat ps = s \<and> (\<forall>p\<in>set ps. length p = 1 \<or> length p = 2) \<and>
         (\<forall>p\<in>set (butlast ps). length p = 2) \<and>
         sysex_to_bytearray (PStr s) = bytearray_hex ps"
    using concat_pairs pairs_length pairs_butlast by blast
next
  assume "(startswith s ''F0'' \<or> startswith s ''f0'') \<and> 3 \<le> length s \<and> s ! 2 \<in> set delimiters"
  then have "sysex_to_bytearray (PStr s) = bytearray_hex (split (s ! 2) s)"
    by (auto simp add: sysex_to_bytearray_def)
  then show "\<exists>ts. join (s ! 2) ts = s \<and> (\<forall>t\<in>set ts. s ! 2 \<notin> set t) \<and>
         sysex_to_bytearray (PStr s) = bytearray_hex ts"
    using join_split split_no_separator by blast
next
  assume "\<not> (startswith s ''F0'' \<or> startswith s ''f0'')"
  then show "sysex_to_bytearray (PStr s) = Inr (map (\<lambda>c. word_of_int (ord c)) s)"
    by (auto simp add: sysex_to_bytearray_def)
qed

lemma sysex_to_bytearray_examples:
  "sysex_to_bytearray (PStr ''abcd'') = Inr [0x61, 0x62, 0x63, 0x64]"
  "sysex_to_bytearray (PStr ''F0'') = Inr [0xF0]"
  "spec_to_byte_sequence ''abcd'' = Inr [0xAB, 0xCD]"
  "spec_to_byte_sequence ''F0'' = Inr [0x46, 0x30]"
  by code_simp+

lemma bytearray_hex_examples:
  "bytearray_hex [''F0'', ''7F'', ''F7''] = Inr [0xF0, 0x7F, 0xF7]"
  by code_simp

lemma startswith_examples:
  "startswith ''F07FF7'' ''F0''" "startswith ''F0 7F F7'' ''F0''"
  "\<not> startswith ''abcd'' ''F0''" "\<not> startswith ''abcd'' ''f0''"
  by (simp_all add: startswith_def)

lemma pieces_of_pairs:
  assumes "concat ps = ''F07FF7''" and "\<forall>p\<in>set ps. length p = 1 \<or> length p = 2"
    and "\<forall>p\<in>set (butlast ps). length p = 2"
  shows "ps = [''F0'', ''7F'', ''F7'']"
proof -
  have two: "length p = 2 \<Longrightarrow> \<exists>a b. p = [a, b]" for p :: string
    by (cases p; cases "tl p") auto
  have one: "length p = 1 \<Longrightarrow> \<exists>a. p = [a]" for p :: string
    by (cases p) auto
  show ?thesis
  proof (cases ps)
    case Nil
    with assms(1) show ?thesis by simp
  next
    case p1: (Cons p1 r1)
    show ?thesis
    proof (cases r1)
      case Nil
      with p1 assms(1, 2) show ?thesis by auto
    next
      case p2: (Cons p2 r2)
      with p1 assms(3) have "length p1 = 2" by simp
      with p1 p2 assms(1) two [of p1] have a: "p1 = ''F0''" "concat (p2 # r2) = ''7FF7''"
        by auto
      show ?thesis
      proof (cases r2)
        case Nil
        with p1 p2 a assms(2) show ?thesis by auto
      next
        case p3: (Cons p3 r3)
        with p1 p2 assms(3) have "length p2 = 2" by simp
        with p3 a two [of p2] have b: "p2 = ''7F''" "concat (p3 # r3) = ''F7''"
          by auto
        show ?thesis
        proof (cases r3)
          case Nil
          with p1 p2 p3 a b show ?thesis by simp
        next
          case (Cons p4 r4)
          with p1 p2 p3 assms(3) have "length p3 = 2" by simp
          with b two [of p3] have "p3 = ''F7''" "concat r3 = []" by auto
          moreover from Cons p1 p2 p3 assms(2) have "p4 \<noteq> []" by auto
          ultimately show ?thesis using Cons by simp
        qed
      qed
    qed
  qed
qed

theorem sysex_to_bytearray_string_witness:
  "(startswith ''F07FF7'' ''F0'' \<or> startswith ''F07FF7'' ''f0'') \<and>
   ''F07FF7'' ! 2 \<notin> set delimiters \<and>
   sysex_to_bytearray (PStr ''F07FF7'') = Inr [0xF0, 0x7F, 0xF7] \<and>
   \<not> (startswith ''abcd'' ''F0'' \<or> startswith ''abcd'' ''f0'') \<and>
   sysex_to_bytearray (PStr ''abcd'') = Inr [0x61, 0x62, 0x63, 0x64] \<and>
   (startswith ''F0 7F F7'' ''F0'' \<or> startswith ''F0 7F F7'' ''f0'') \<and>
   3 \<le> length ''F0 7F F7'' \<and> ''F0 7F F7'' ! 2 \<in> set delimiters \<and>
   (\<exists>ts. join (''F0 7F F7'' ! 2) ts = ''F0 7F F7'' \<and>
      (\<forall>t\<in>set ts. ''F0 7F F7'' ! 2 \<notin> set t) \<and>
      sysex_to_bytearray (PStr ''F0 7F F7'') = bytearray_hex ts)"
proof -
  have d: "''F07FF7'' ! 2 \<notin> set delimiters"
    by (simp add: delimiters_def)
  with sysex_to_bytearray_string [of "''F07FF7''"] startswith_examples
  obtain ps where "concat ps = ''F07FF7''" "\<forall>p\<in>set ps. length p = 1 \<or> length p = 2"
    "\<forall>p\<in>set (butlast ps). length p = 2"
    and r: "sysex_to_bytearray (PStr ''F07FF7'') = bytearray_hex ps"
    by blast
  then have "ps = [''F0'', ''7F'', ''F7'']"
    by (intro pieces_of_pairs)
  with r have "sysex_to_bytearray (PStr ''F07FF7'') = Inr [0xF0, 0x7F, 0xF7]"
    by (simp only: bytearray_hex_examples)
  moreover have "sysex_to_bytearray (PStr ''abcd'') = Inr [0x61, 0x62, 0x63, 0x64]"
    using sysex_to_bytearray_string [of "''abcd''"] startswith_examples
    by (simp add: ord_def)
  moreover have e: "''F0 7F F7'' ! 2 \<in> set delimiters"
    by (simp add: delimiters_def)
  moreover have "\<exists>ts. join (''F0 7F F7'' ! 2) ts = ''F0 7F F7'' \<and>
      (\<forall>t\<in>set ts. ''F0 7F F7'' ! 2 \<notin> set t) \<and>
      sysex_to_bytearray (PStr ''F0 7F F7'') = bytearray_hex ts"
    using sysex_to_bytearray_string [of "''F0 7F F7''"] startswith_examples e
    by simp
  ultimately show ?thesis
    using d startswith_examples by simp
qed

text \<open>
  C9 as stated fails. The string \<^verbatim>\<open>abcd\<close> has a 3rd character that is not a delimiter,
  yet it is not parsed as hexadecimal pairs: it gives its four character codes. The
  string \<^verbatim>\<open>F0\<close> has fewer than 3 characters, yet it is parsed as one hexadecimal pair.
\<close>

theorem sysex_to_bytearray_string_counterexample:
  "sysex_to_bytearray (PStr ''abcd'') \<noteq> spec_to_byte_sequence ''abcd'' \<and>
   sysex_to_bytearray (PStr ''F0'') \<noteq> spec_to_byte_sequence ''F0''"
  by (simp add: sysex_to_bytearray_examples)

section \<open>Ranges: properties\<close>

lemma check_note_Inr:
  "check_note allow_end r = Inr n \<Longrightarrow> n = r \<and> 0 \<le> int_of n \<and> int_of n < (if allow_end then 129 else 128)"
  by (auto simp add: check_note_def Let_def split: if_splits)

lemma note_number_Inr:
  "note_number cfg v allow_end = Inr n \<Longrightarrow> 0 \<le> int_of n \<and> int_of n < (if allow_end then 129 else 128)"
  by (auto simp add: note_number_def Let_def dest!: check_note_Inr split: pyval.splits option.splits if_splits)

lemma ctrl_value_Inr:
  "ctrl_value v allow_end = Inr n \<Longrightarrow> v = PInt n \<and> 0 \<le> int_of n \<and> int_of n < (if allow_end then 129 else 128)"
  by (auto simp add: ctrl_value_def Let_def split: pyval.splits if_splits)

lemma velocity_value_Inr:
  "velocity_value v allow_end = Inr n \<Longrightarrow> v = PInt n \<and> 0 \<le> int_of n \<and> int_of n < (if allow_end then 129 else 128)"
  by (auto simp add: velocity_value_def Let_def split: pyval.splits if_splits)

lemma ctrl_range_Inr:
  assumes "ctrl_range v = Inr (lo, hi)"
  shows "0 \<le> int_of lo \<and> int_of lo \<le> 128 \<and> 0 \<le> int_of hi \<and> int_of hi \<le> 128 \<and>
         (single_value v \<longrightarrow> int_of hi = int_of lo + 1)"
proof (cases "ctrl_value v False")
  case (Inr n)
  with assms have "lo = n" "hi = Plain (int_of n + 1)"
    by (auto simp add: ctrl_range_def)
  with ctrl_value_Inr [OF Inr] show ?thesis by simp
next
  case (Inl e)
  with assms obtain a b where v: "v = PTuple [a, b]"
    and lo: "ctrl_limit a = Inr lo" and hi: "ctrl_limit b = Inr hi"
    by (auto simp add: ctrl_range_def split: pyval.splits list.splits sum.splits)
  from lo hi have "0 \<le> int_of lo \<and> int_of lo < 129" "0 \<le> int_of hi \<and> int_of hi < 129"
    by (auto simp add: ctrl_limit_def dest: ctrl_value_Inr)
  with v show ?thesis by (simp add: single_value_def)
qed

lemma velocity_range_Inr:
  assumes "velocity_range v = Inr (lo, hi)"
  shows "0 \<le> int_of lo \<and> int_of lo \<le> 128 \<and> 0 \<le> int_of hi \<and> int_of hi \<le> 128 \<and>
         (single_value v \<longrightarrow> int_of hi = int_of lo + 1)"
proof (cases "velocity_value v False")
  case (Inr n)
  with assms have "lo = n" "hi = Plain (int_of n + 1)"
    by (auto simp add: velocity_range_def)
  with velocity_value_Inr [OF Inr] show ?thesis by simp
next
  case (Inl e)
  with assms obtain a b where v: "v = PTuple [a, b]"
    and lo: "velocity_limit a = Inr lo" and hi: "velocity_limit b = Inr hi"
    by (auto simp add: velocity_range_def split: pyval.splits list.splits sum.splits)
  from lo hi have "0 \<le> int_of lo \<and> int_of lo < 129" "0 \<le> int_of hi \<and> int_of hi < 129"
    by (auto simp add: velocity_limit_def dest: velocity_value_Inr)
  with v show ?thesis by (simp add: single_value_def)
qed

lemma split1_no_separator: "d \<notin> set s \<Longrightarrow> split1 d s = [s]"
proof -
  assume "d \<notin> set s"
  then have "dropWhile (\<lambda>c. c \<noteq> d) s = []"
    by (induction s) auto
  then show ?thesis
    unfolding split1_def by (simp only: list.case)
qed

lemma note_bound_or_zero:
  "(if s \<noteq> [] then note_limit cfg (PStr s) else Inr (Plain 0)) = Inr n \<Longrightarrow>
   0 \<le> int_of n \<and> int_of n \<le> 128"
  by (auto simp add: note_limit_def dest: note_number_Inr split: if_splits)

lemma note_range_Inr:
  assumes "note_range cfg v = Inr (lo, hi)"
  shows "0 \<le> int_of lo \<and> int_of lo \<le> 128 \<and> 0 \<le> int_of hi \<and> int_of hi \<le> 128 \<and>
         (single_value v \<longrightarrow> int_of hi = int_of lo + 1)"
proof (cases "note_number cfg v False")
  case (Inr n)
  with assms have "lo = n" "hi = Plain (int_of n + 1)"
    by (auto simp add: note_range_def)
  with note_number_Inr [OF Inr] show ?thesis by simp
next
  case (Inl e)
  show ?thesis
  proof (cases v)
    case (PTuple xs)
    with Inl assms obtain a b where lo: "note_limit cfg a = Inr lo" and hi: "note_limit cfg b = Inr hi"
      by (auto simp add: note_range_def split: list.splits sum.splits)
    from lo hi have "0 \<le> int_of lo \<and> int_of lo < 129" "0 \<le> int_of hi \<and> int_of hi < 129"
      by (auto simp add: note_limit_def dest: note_number_Inr)
    with PTuple show ?thesis by (simp add: single_value_def)
  next
    case (PStr s)
    with Inl assms obtain n0 n1 rest where sp: "split1 CHR '':'' s = n0 # n1 # rest"
      and lo: "(if n0 \<noteq> [] then note_limit cfg (PStr n0) else Inr (Plain 0)) = Inr lo"
      and hi: "(if n1 \<noteq> [] then note_limit cfg (PStr n1) else Inr (Plain 0)) = Inr hi"
      by (auto simp add: note_range_def split: list.splits sum.splits)
    from sp have "CHR '':'' \<in> set s"
      using split1_no_separator [of "CHR '':''" s] by auto
    with PStr note_bound_or_zero [OF lo] note_bound_or_zero [OF hi] show ?thesis
      by (simp add: single_value_def)
  next
    case (PInt n)
    with Inl assms show ?thesis by (simp add: note_range_def)
  next
    case (PBytearray b)
    with Inl assms show ?thesis by (simp add: note_range_def)
  next
    case PNone
    with Inl assms show ?thesis by (simp add: note_range_def)
  qed
qed

text \<open>
  C7 (as amended). For every range description accepted by \<^verbatim>\<open>note_range\<close>,
  \<^verbatim>\<open>ctrl_range\<close> or \<^verbatim>\<open>velocity_range\<close>, both numbers of the returned pair lie
  between 0 and 128; when the description is a single value, the second number is the
  first plus 1, so the first is at most the second. For a tuple or a range string the
  two bounds are taken as given and their order is not checked.
\<close>

theorem range_result:
  assumes "note_range cfg v = Inr (lo, hi) \<or> ctrl_range v = Inr (lo, hi) \<or>
           velocity_range v = Inr (lo, hi)"
  shows "0 \<le> int_of lo \<and> int_of lo \<le> 128 \<and> 0 \<le> int_of hi \<and> int_of hi \<le> 128 \<and>
         (single_value v \<longrightarrow> int_of hi = int_of lo + 1 \<and> int_of lo \<le> int_of hi)"
  using assms note_range_Inr [of cfg v lo hi] ctrl_range_Inr [of v lo hi]
    velocity_range_Inr [of v lo hi]
  by auto

lemma range_examples:
  "ctrl_range (PInt (Plain 7)) = Inr (Plain 7, Plain 8)"
  "ctrl_range (PTuple [PInt (Plain 5), PInt (Plain 3)]) = Inr (Plain 5, Plain 3)"
  by (simp_all add: ctrl_range_def ctrl_value_def ctrl_limit_def)

lemma note_range_examples:
  "note_range config1 (PStr ''c4:c5'') = Inr (Plain 60, Plain 72)"
  "note_range config1 (PStr ''c4:'') = Inr (Plain 60, Plain 0)"
  by code_simp+

theorem range_result_witness:
  "ctrl_range (PInt (Plain 7)) = Inr (Plain 7, Plain 8) \<and>
   single_value (PInt (Plain 7)) \<and>
   int_of (Plain 8) = int_of (Plain 7) + 1 \<and> int_of (Plain 7) \<le> int_of (Plain 8) \<and>
   note_range config1 (PStr ''c4:c5'') = Inr (Plain 60, Plain 72) \<and>
   0 \<le> int_of (Plain 60) \<and> int_of (Plain 72) \<le> 128"
  using range_result [of config1 "PInt (Plain 7)" "Plain 7" "Plain 8"]
    range_result [of config1 "PStr ''c4:c5''" "Plain 60" "Plain 72"]
  by (simp add: range_examples note_range_examples single_value_def)

text \<open>
  C7 as stated fails: \<^verbatim>\<open>ctrl_range((5, 3))\<close> is accepted and returns the pair (5, 3),
  whose first number is above the second; \<^verbatim>\<open>note_range("c4:")\<close> returns (60, 0).
\<close>

theorem range_result_counterexample:
  "ctrl_range (PTuple [PInt (Plain 5), PInt (Plain 3)]) = Inr (Plain 5, Plain 3) \<and>
   \<not> int_of (Plain 5) \<le> int_of (Plain 3) \<and>
   note_range config1 (PStr ''c4:'') = Inr (Plain 60, Plain 0) \<and>
   \<not> int_of (Plain 60) \<le> int_of (Plain 0)"
  by (simp add: range_examples note_range_examples)

section \<open>Note names: properties\<close>

lemma digit_cases: "d < 10 \<Longrightarrow> d \<in> {0, 1, 2, 3, 4, 5, 6, 7, 8, 9 :: nat}"
  by auto

lemma isdigit_digit_char: "d < 10 \<Longrightarrow> isdigit (digit_char d)"
  by (drule digit_cases) (auto simp add: isdigit_def digit_char_def char_of_eq_iff)

lemma digit_val_digit_char: "d < 10 \<Longrightarrow> digit_val (digit_char d) = Some d"
  by (simp add: digit_val_def digit_char_def Let_def)

lemma isdigit_plain:
  "isdigit c \<Longrightarrow> \<not> isspace c \<and> c \<noteq> CHR ''-'' \<and> c \<noteq> CHR ''+'' \<and> lower_char c = c"
  by (auto simp add: isdigit_def isspace_def lower_char_def)

lemma str_nat_not_Nil: "str_nat n \<noteq> []"
  by (subst str_nat.simps) simp

lemma str_nat_digits: "\<forall>c\<in>set (str_nat n). isdigit c"
proof (induction n rule: str_nat.induct)
  case (1 n)
  show ?case
  proof (cases "n < 10")
    case True
    then show ?thesis by (subst str_nat.simps) (simp add: isdigit_digit_char)
  next
    case False
    with "1" show ?thesis by (subst str_nat.simps) (simp add: isdigit_digit_char)
  qed
qed

lemma digits_value_append:
  "digits_value b acc (xs @ ys) =
     (case digits_value b acc xs of None \<Rightarrow> None | Some a \<Rightarrow> digits_value b a ys)"
  by (induction xs arbitrary: acc) (auto split: option.splits)

lemma digits_value_str_nat: "digits_value 10 0 (str_nat n) = Some n"
proof (induction n rule: str_nat.induct)
  case (1 n)
  show ?case
  proof (cases "n < 10")
    case True
    then show ?thesis by (subst str_nat.simps) (simp add: digit_val_digit_char)
  next
    case False
    with "1" show ?thesis
      by (subst str_nat.simps) (simp add: digits_value_append digit_val_digit_char)
  qed
qed

lemma strip_id: "s \<noteq> [] \<Longrightarrow> \<not> isspace (hd s) \<Longrightarrow> \<not> isspace (last s) \<Longrightarrow> strip s = s"
proof -
  assume s: "s \<noteq> []" and h: "\<not> isspace (hd s)" and l: "\<not> isspace (last s)"
  from s h have "dropWhile isspace s = s" by (cases s) auto
  moreover from s l have "dropWhile isspace (rev s) = rev s"
    by (cases "rev s") (auto simp add: last_rev [symmetric] simp del: last_rev)
  ultimately show ?thesis by (simp add: strip_def)
qed

lemma str_nat_ends: "isdigit (hd (str_nat n)) \<and> isdigit (last (str_nat n))"
  using str_nat_digits [of n] str_nat_not_Nil [of n] by (simp add: hd_in_set)

lemma str_int_head: "isdigit (hd (str_int k)) \<or> hd (str_int k) = CHR ''-''"
  by (simp add: str_int_def str_nat_ends)

lemma str_int_not_Nil: "str_int k \<noteq> []"
  by (simp add: str_int_def str_nat_not_Nil)

lemma py_int_str_int: "py_int 10 (str_int k) = Some k"
proof (cases "k < 0")
  case True
  let ?m = "nat (- k)"
  have "\<not> isspace CHR ''-''"
    by (simp add: isspace_def)
  then have s: "strip (CHR ''-'' # str_nat ?m) = CHR ''-'' # str_nat ?m"
    using str_nat_ends [of ?m] str_nat_not_Nil [of ?m]
    by (intro strip_id) (simp_all add: isdigit_plain)
  from True show ?thesis
    by (simp add: py_int_def str_int_def s str_nat_not_Nil digits_value_str_nat)
next
  case False
  let ?m = "nat k"
  obtain c cs where c: "str_nat ?m = c # cs"
    using str_nat_not_Nil [of ?m] by (cases "str_nat ?m") auto
  with str_nat_ends [of ?m] have d: "isdigit c" by simp
  have "strip (str_nat ?m) = str_nat ?m"
    using str_nat_ends [of ?m] str_nat_not_Nil [of ?m]
    by (intro strip_id) (auto simp add: isdigit_plain)
  with c have s: "strip (c # cs) = c # cs" by simp
  have v: "digits_value 10 0 (c # cs) = Some ?m"
    using digits_value_str_nat [of ?m] c by simp
  from d have "c \<noteq> CHR ''-''" "c \<noteq> CHR ''+''"
    by (simp_all add: isdigit_plain)
  with False v show ?thesis
    by (simp add: py_int_def str_int_def c s Let_def del: digits_value.simps)
qed

lemma lower_str_int: "lower (str_int k) = str_int k"
proof -
  have "lower_char CHR ''-'' = CHR ''-''"
    by (simp add: lower_char_def)
  then have "\<forall>c\<in>set (str_int k). lower_char c = c"
    using str_nat_digits by (auto simp add: str_int_def isdigit_plain)
  then show ?thesis by (simp add: lower_def map_idI)
qed

lemma scan_break_append:
  "\<forall>c\<in>set xs. \<not> isdigit c \<and> c \<noteq> CHR ''-'' \<Longrightarrow> isdigit y \<or> y = CHR ''-'' \<Longrightarrow>
   scan_break (xs @ y # ys) i = Some (i + length xs)"
  by (induction xs arbitrary: i) auto

lemma semitone_cases:
  "0 \<le> m \<Longrightarrow> m < 12 \<Longrightarrow> m \<in> {0, 1, 2, 3, 4, 5, 6, 7, 8, 9, 10, 11 :: int}"
  by simp arith

lemma note_names_numbers:
  assumes "0 \<le> m" "m < 12"
  shows "\<exists>name. NOTE_NAMES m = Some name \<and> NOTE_NUMBERS name = Some m \<and> lower name = name \<and>
           (\<forall>c\<in>set name. \<not> isdigit c \<and> c \<noteq> CHR ''-'')"
  using semitone_cases [OF assms]
  by (auto simp add: NOTE_NAMES_def NOTE_NUMBERS_def lower_def lower_char_def isdigit_def)

lemma parse_note_name_octave:
  assumes "\<forall>c\<in>set name. \<not> isdigit c \<and> c \<noteq> CHR ''-''" and "NOTE_NUMBERS name = Some m"
  shows "parse_note cfg (name @ str_int k) = Some (m + (k + octave_offset cfg) * 12)"
proof -
  obtain y ys where y: "str_int k = y # ys"
    using str_int_not_Nil [of k] by (cases "str_int k") auto
  with str_int_head [of k] have "isdigit y \<or> y = CHR ''-''" by simp
  with assms(1) have "scan_break (name @ y # ys) 0 = Some (length name)"
    using scan_break_append [of name y ys 0] by simp
  then have "loop_index (name @ str_int k) = Some (length name)"
    by (simp add: loop_index_def y)
  with assms(2) show ?thesis
    by (simp add: parse_note_def py_int_str_int)
qed

text \<open>
  C6. For every integer \<open>n\<close> with \<open>0 \<le> n < 128\<close> and every configured octave offset,
  \<^verbatim>\<open>note_name(n)\<close> returns a name, and \<^verbatim>\<open>note_number\<close> of that name is \<open>n\<close>.
\<close>

theorem note_number_note_name:
  assumes "0 \<le> int_of n" "int_of n < 128"
  shows "\<exists>s. note_name cfg (PInt n) = Inr s \<and>
           note_number cfg (PStr s) False = Inr (Plain (int_of n))"
proof -
  let ?m = "int_of n mod 12" and ?k = "int_of n div 12 - octave_offset cfg"
  obtain name where nm: "NOTE_NAMES ?m = Some name" and num: "NOTE_NUMBERS name = Some ?m"
    and low: "lower name = name" and chars: "\<forall>c\<in>set name. \<not> isdigit c \<and> c \<noteq> CHR ''-''"
    using note_names_numbers [of ?m] by auto
  have name: "note_name cfg (PInt n) = Inr (name @ str_int ?k)"
    by (simp add: note_name_def nm)
  have l: "lower (name @ str_int ?k) = name @ str_int ?k"
    using low lower_str_int [of ?k] by (simp add: lower_def)
  have "parse_note cfg (name @ str_int ?k) = Some (?m + (?k + octave_offset cfg) * 12)"
    using parse_note_name_octave [OF chars num] .
  moreover have "?m + (?k + octave_offset cfg) * 12 = int_of n" by simp
  ultimately have "note_number cfg (PStr (name @ str_int ?k)) False = Inr (Plain (int_of n))"
    using assms by (simp add: note_number_def l check_note_def)
  with name show ?thesis by blast
qed

lemma note_name_example: "note_name config1 (PInt (Plain 60)) = Inr ''c4''"
  by code_simp

theorem note_number_note_name_witness:
  "0 \<le> int_of (Plain 60) \<and> int_of (Plain 60) < 128 \<and>
   note_name config1 (PInt (Plain 60)) = Inr ''c4'' \<and>
   note_number config1 (PStr ''c4'') False = Inr (Plain 60)"
  using note_number_note_name [of "Plain 60" config1]
  by (auto simp add: note_name_example)

end
